theory Spec2Isabelle
  imports Main
begin

section \<open>JavaScript values\<close>

text \<open>
  The preview bridge moves JavaScript values between the preview document and the host
  page, and what is proved below is about how those values are formatted, thrown and read.  The
  values are modelled as finite trees.  \<open>JNum n\<close> is a Number whose value is the safe
  integer \<open>n\<close>; the type \<open>safe_int\<close> holds exactly the integers from \<open>-(2^53 - 1)\<close> to
  \<open>2^53 - 1\<close>, each of which is a Number and is printed by
  \<open>Number.prototype.toString\<close> as its plain decimal numeral.  Other numbers (larger,
  non-integral, \<open>NaN\<close>, the infinities) are not values of the model.  \<open>JError m\<close> is an
  \<open>Error\<close> instance whose \<open>message\<close> is \<open>m\<close>; \<open>JFun src\<close> is a function whose source
  text is \<open>src\<close> and which has no properties besides the built-in ones; \<open>JObj kvs\<close> is a
  plain object with its enumerable own properties in enumeration order.  Cyclic object
  graphs, objects with a \<open>toJSON\<close> method and wrapper objects are outside the model.  A
  JavaScript string is a \<open>string\<close>.
\<close>

typedef safe_int = "{n :: int. - 9007199254740991 \<le> n \<and> n \<le> 9007199254740991}"
  morphisms int_of_safe safe_of_int
  by (rule exI [of _ 0]) simp

datatype jsval =
    JUndefined
  | JNull
  | JBool bool
  | JNum safe_int
  | JBigInt int
  | JStr string
  | JSymbol string
  | JFun string
  | JError string
  | JArr "jsval list"
  | JObj "(string \<times> jsval) list"

text \<open>The \<open>typeof\<close> operator.\<close>

fun typeof :: "jsval \<Rightarrow> string" where
  "typeof JUndefined = ''undefined''"
| "typeof JNull = ''object''"
| "typeof (JBool b) = ''boolean''"
| "typeof (JNum n) = ''number''"
| "typeof (JBigInt n) = ''bigint''"
| "typeof (JStr s) = ''string''"
| "typeof (JSymbol d) = ''symbol''"
| "typeof (JFun src) = ''function''"
| "typeof (JError m) = ''object''"
| "typeof (JArr xs) = ''object''"
| "typeof (JObj kvs) = ''object''"

text \<open>
  Exceptions raised by the platform are \<open>Error\<close> objects.  Their message texts are
  engine-specific (the ones below are V8's); nothing proved here depends on them.
\<close>

definition TypeError_BigInt :: jsval where
  "TypeError_BigInt = JError ''Do not know how to serialize a BigInt''"

definition TypeError_nullish :: jsval where
  "TypeError_nullish = JError ''Cannot read properties of undefined''"

definition DataCloneError :: jsval where
  "DataCloneError = JError ''The object could not be cloned.''"

subsection \<open>Numbers and strings\<close>

definition digit_char :: "nat \<Rightarrow> char" where
  "digit_char d = ''0123456789abcdef'' ! d"

function string_of_nat :: "nat \<Rightarrow> string" where
  "string_of_nat n =
     (if n < 10 then [digit_char n] else string_of_nat (n div 10) @ [digit_char (n mod 10)])"
  by pat_completeness auto
termination
  by (relation "measure id") auto

declare string_of_nat.simps [simp del]

text \<open>\<open>Number.prototype.toString\<close> (and \<open>BigInt.prototype.toString\<close>) on an integer.\<close>

definition number_toString :: "int \<Rightarrow> string" where
  "number_toString n = (if n < 0 then ''-'' @ string_of_nat (nat (- n)) else string_of_nat (nat n))"

text \<open>\<open>Array.prototype.join\<close> on an array of strings.\<close>

fun js_join :: "string \<Rightarrow> string list \<Rightarrow> string" where
  "js_join sep [] = []"
| "js_join sep [x] = x"
| "js_join sep (x # y # ys) = x @ sep @ js_join sep (y # ys)"

text \<open>
  \<open>Array.prototype.join\<close> on an array whose elements are strings or \<open>undefined\<close>
  (\<open>None\<close>): an \<open>undefined\<close> element contributes the empty string.
\<close>

definition js_join_opt :: "string \<Rightarrow> string option list \<Rightarrow> string" where
  "js_join_opt sep xs = js_join sep (map (\<lambda>x. case x of None \<Rightarrow> [] | Some s \<Rightarrow> s) xs)"

text \<open>
  \<open>String(v)\<close>.  The instrumentation applies it to values whose \<open>typeof\<close> is not
  \<open>object\<close>; on objects it would call their \<open>toString\<close> method, given here for the
  built-in prototypes.
\<close>

fun String_fn :: "jsval \<Rightarrow> string" where
  "String_fn JUndefined = ''undefined''"
| "String_fn JNull = ''null''"
| "String_fn (JBool b) = (if b then ''true'' else ''false'')"
| "String_fn (JNum n) = number_toString (int_of_safe n)"
| "String_fn (JBigInt n) = number_toString n"
| "String_fn (JStr s) = s"
| "String_fn (JSymbol d) = ''Symbol('' @ d @ '')''"
| "String_fn (JFun src) = src"
| "String_fn (JError m) = (if m = [] then ''Error'' else ''Error: '' @ m)"
| "String_fn (JArr xs) =
     js_join '','' (map (\<lambda>x. if x = JUndefined \<or> x = JNull then [] else String_fn x) xs)"
| "String_fn (JObj kvs) = ''[object Object]''"

subsection \<open>JSON.stringify with an indentation of two spaces\<close>

text \<open>\<open>QuoteJSONString\<close>: the escapes of the ECMAScript specification.\<close>

definition hex4 :: "nat \<Rightarrow> string" where
  "hex4 n = [digit_char (n div 4096 mod 16), digit_char (n div 256 mod 16),
             digit_char (n div 16 mod 16), digit_char (n mod 16)]"

definition quote_char :: "char \<Rightarrow> string" where
  \<open>quote_char c =
     (if c = CHR 0x08 then [CHR 0x5C, CHR ''b'']
      else if c = CHR 0x09 then [CHR 0x5C, CHR ''t'']
      else if c = CHR 0x0A then [CHR 0x5C, CHR ''n'']
      else if c = CHR 0x0C then [CHR 0x5C, CHR ''f'']
      else if c = CHR 0x0D then [CHR 0x5C, CHR ''r'']
      else if c = CHR 0x22 then [CHR 0x5C, CHR 0x22]
      else if c = CHR 0x5C then [CHR 0x5C, CHR 0x5C]
      else if (of_char c :: nat) < 32 then [CHR 0x5C, CHR ''u''] @ hex4 (of_char c)
      else [c])\<close>

definition QuoteJSONString :: "string \<Rightarrow> string" where
  "QuoteJSONString s = [CHR 0x22] @ concat (map quote_char s) @ [CHR 0x22]"

definition gap :: string where
  "gap = ''  ''"

text \<open>
  \<open>SerializeJSONProperty\<close>, \<open>SerializeJSONArray\<close> and \<open>SerializeJSONObject\<close>.  The first
  argument is the current indentation.  The result is \<open>Inl e\<close> when the exception \<open>e\<close>
  is thrown, \<open>Inr None\<close> for \<open>undefined\<close> and \<open>Inr (Some s)\<close> for the text \<open>s\<close>.
  \<open>ser_elems\<close> and \<open>ser_members\<close> build the list called \<open>partial\<close> there.
\<close>

fun ser :: "string \<Rightarrow> jsval \<Rightarrow> jsval + string option"
  and ser_elems :: "string \<Rightarrow> jsval list \<Rightarrow> jsval + string list"
  and ser_members :: "string \<Rightarrow> (string \<times> jsval) list \<Rightarrow> jsval + string list" where
  "ser ind JUndefined = Inr None"
| "ser ind JNull = Inr (Some ''null'')"
| "ser ind (JBool b) = Inr (Some (if b then ''true'' else ''false''))"
| "ser ind (JNum n) = Inr (Some (number_toString (int_of_safe n)))"
| "ser ind (JBigInt n) = Inl TypeError_BigInt"
| "ser ind (JStr s) = Inr (Some (QuoteJSONString s))"
| "ser ind (JSymbol d) = Inr None"
| "ser ind (JFun src) = Inr None"
| "ser ind (JError m) = Inr (Some ''{}'')"
| "ser ind (JArr xs) =
     (case ser_elems (ind @ gap) xs of
        Inl e \<Rightarrow> Inl e
      | Inr partial \<Rightarrow>
          Inr (Some (if partial = [] then ''[]''
                     else ''['' @ [CHR 0x0A] @ (ind @ gap) @
                          js_join ('','' @ [CHR 0x0A] @ (ind @ gap)) partial @
                          [CHR 0x0A] @ ind @ '']'')))"
| "ser ind (JObj kvs) =
     (case ser_members (ind @ gap) kvs of
        Inl e \<Rightarrow> Inl e
      | Inr partial \<Rightarrow>
          Inr (Some (if partial = [] then ''{}''
                     else ''{'' @ [CHR 0x0A] @ (ind @ gap) @
                          js_join ('','' @ [CHR 0x0A] @ (ind @ gap)) partial @
                          [CHR 0x0A] @ ind @ ''}'')))"
| "ser_elems ind [] = Inr []"
| "ser_elems ind (x # xs) =
     (case ser ind x of
        Inl e \<Rightarrow> Inl e
      | Inr strP \<Rightarrow>
          (case ser_elems ind xs of
             Inl e \<Rightarrow> Inl e
           | Inr rest \<Rightarrow> Inr ((case strP of None \<Rightarrow> ''null'' | Some s \<Rightarrow> s) # rest)))"
| "ser_members ind [] = Inr []"
| "ser_members ind ((k, v) # kvs) =
     (case ser ind v of
        Inl e \<Rightarrow> Inl e
      | Inr strP \<Rightarrow>
          (case ser_members ind kvs of
             Inl e \<Rightarrow> Inl e
           | Inr rest \<Rightarrow>
               Inr (case strP of
                      None \<Rightarrow> rest
                    | Some s \<Rightarrow> (QuoteJSONString k @ '': '' @ s) # rest)))"

text \<open>\<open>JSON.stringify(v, null, 2)\<close>.\<close>

definition JSON_stringify :: "jsval \<Rightarrow> jsval + string option" where
  "JSON_stringify v = ser [] v"

subsection \<open>Property reads and structured cloning\<close>

text \<open>
  \<open>v.k\<close> for the property names the program reads (\<open>type\<close>, \<open>level\<close>, \<open>message\<close>,
  \<open>timestamp\<close>).  Reading a property of \<open>undefined\<close> or \<open>null\<close> throws a \<open>TypeError\<close>
  (\<open>Inl\<close>).  None of these names is defined on a built-in prototype except
  \<open>message\<close> on errors, so every other miss yields \<open>undefined\<close>.
\<close>

fun get_prop :: "jsval \<Rightarrow> string \<Rightarrow> jsval + jsval" where
  "get_prop JUndefined k = Inl TypeError_nullish"
| "get_prop JNull k = Inl TypeError_nullish"
| "get_prop (JError m) k = Inr (if k = ''message'' then JStr m else JUndefined)"
| "get_prop (JObj kvs) k = Inr (case map_of kvs k of None \<Rightarrow> JUndefined | Some v \<Rightarrow> v)"
| "get_prop v k = Inr JUndefined"

text \<open>
  \<open>postMessage\<close> copies its argument with the structured clone algorithm, which throws a
  \<open>DataCloneError\<close> on a function or a symbol anywhere in the value.
\<close>

fun cloneable :: "jsval \<Rightarrow> bool"
  and cloneable_list :: "jsval list \<Rightarrow> bool"
  and cloneable_props :: "(string \<times> jsval) list \<Rightarrow> bool" where
  "cloneable (JSymbol d) = False"
| "cloneable (JFun src) = False"
| "cloneable (JArr xs) = cloneable_list xs"
| "cloneable (JObj kvs) = cloneable_props kvs"
| "cloneable v = True"
| "cloneable_list [] = True"
| "cloneable_list (x # xs) = (cloneable x \<and> cloneable_list xs)"
| "cloneable_props [] = True"
| "cloneable_props ((k, v) # kvs) = (cloneable v \<and> cloneable_props kvs)"

section \<open>The instrumentation script of the composed document\<close>

text \<open>
  The script that \<open>generatePreviewContent\<close> embeds runs inside the iframe.  What it does
  there is recorded as a trace of effects: a call of one of the saved original console
  methods, or a \<open>window.parent.postMessage\<close> with its payload.  A piece of script either
  completes (\<open>Normal\<close>) or throws a value (\<open>Abrupt\<close>); both carry the trace so far.
  The clock of the iframe is a parameter: \<open>clock k\<close> is what \<open>new Date().toISOString()\<close>
  returns when \<open>k\<close> effects have happened.
\<close>

datatype effect =
    NativeCall string "jsval list"
  | PostMessage jsval

datatype outcome =
    Normal "effect list"
  | Abrupt jsval "effect list"

definition sendToParent :: "(nat \<Rightarrow> string) \<Rightarrow> string \<Rightarrow> jsval \<Rightarrow> effect list \<Rightarrow> outcome" where
  "sendToParent clock type message tr =
     (let payload = JObj [(''type'', JStr ''console''),
                          (''level'', JStr type),
                          (''message'', message),
                          (''timestamp'', JStr (clock (length tr)))]
      in if cloneable payload then Normal (tr @ [PostMessage payload])
         else Abrupt DataCloneError tr)"

text \<open>
  The expression the four console replacements share:
  \<open>args.map(arg => typeof arg === 'object' ? JSON.stringify(arg, null, 2) : String(arg)).join(' ')\<close>.
  \<open>map\<close> goes through the arguments from left to right and stops at the first throw.
\<close>

definition format_arg :: "jsval \<Rightarrow> jsval + string option" where
  "format_arg arg = (if typeof arg = ''object'' then JSON_stringify arg else Inr (Some (String_fn arg)))"

fun map_format_arg :: "jsval list \<Rightarrow> jsval + string option list" where
  "map_format_arg [] = Inr []"
| "map_format_arg (arg # args) =
     (case format_arg arg of
        Inl e \<Rightarrow> Inl e
      | Inr s \<Rightarrow> (case map_format_arg args of Inl e \<Rightarrow> Inl e | Inr ss \<Rightarrow> Inr (s # ss)))"

definition format_args :: "jsval list \<Rightarrow> jsval + string" where
  "format_args args =
     (case map_format_arg args of Inl e \<Rightarrow> Inl e | Inr ss \<Rightarrow> Inr (js_join_opt '' '' ss))"

definition console_log :: "(nat \<Rightarrow> string) \<Rightarrow> jsval list \<Rightarrow> effect list \<Rightarrow> outcome" where
  "console_log clock args tr =
     (let tr1 = tr @ [NativeCall ''log'' args]
      in case format_args args of
           Inl e \<Rightarrow> Abrupt e tr1
         | Inr text \<Rightarrow> sendToParent clock ''log'' (JStr text) tr1)"

definition console_error :: "(nat \<Rightarrow> string) \<Rightarrow> jsval list \<Rightarrow> effect list \<Rightarrow> outcome" where
  "console_error clock args tr =
     (let tr1 = tr @ [NativeCall ''error'' args]
      in case format_args args of
           Inl e \<Rightarrow> Abrupt e tr1
         | Inr text \<Rightarrow> sendToParent clock ''error'' (JStr text) tr1)"

definition console_warn :: "(nat \<Rightarrow> string) \<Rightarrow> jsval list \<Rightarrow> effect list \<Rightarrow> outcome" where
  "console_warn clock args tr =
     (let tr1 = tr @ [NativeCall ''warn'' args]
      in case format_args args of
           Inl e \<Rightarrow> Abrupt e tr1
         | Inr text \<Rightarrow> sendToParent clock ''warn'' (JStr text) tr1)"

definition console_info :: "(nat \<Rightarrow> string) \<Rightarrow> jsval list \<Rightarrow> effect list \<Rightarrow> outcome" where
  "console_info clock args tr =
     (let tr1 = tr @ [NativeCall ''info'' args]
      in case format_args args of
           Inl e \<Rightarrow> Abrupt e tr1
         | Inr text \<Rightarrow> sendToParent clock ''info'' (JStr text) tr1)"

text \<open>
  The user's JavaScript is arbitrary text.  It is represented by what it does
  synchronously with the instrumented console: a sequence of console calls and throws.
  (The text is assumed to parse as a statement list inside the \<open>try\<close> block.)
\<close>

datatype console_method = Log | Error | Warn | Info

definition method_name :: "console_method \<Rightarrow> string" where
  "method_name m = (case m of Log \<Rightarrow> ''log'' | Error \<Rightarrow> ''error'' | Warn \<Rightarrow> ''warn'' | Info \<Rightarrow> ''info'')"

datatype stmt =
    ConsoleCall console_method "jsval list"
  | Throw jsval

definition console_call :: "(nat \<Rightarrow> string) \<Rightarrow> console_method \<Rightarrow> jsval list \<Rightarrow> effect list \<Rightarrow> outcome" where
  "console_call clock m args tr =
     (case m of
        Log \<Rightarrow> console_log clock args tr
      | Error \<Rightarrow> console_error clock args tr
      | Warn \<Rightarrow> console_warn clock args tr
      | Info \<Rightarrow> console_info clock args tr)"

fun exec_stmts :: "(nat \<Rightarrow> string) \<Rightarrow> stmt list \<Rightarrow> effect list \<Rightarrow> outcome" where
  "exec_stmts clock [] tr = Normal tr"
| "exec_stmts clock (ConsoleCall m args # rest) tr =
     (case console_call clock m args tr of
        Normal tr1 \<Rightarrow> exec_stmts clock rest tr1
      | Abrupt e tr1 \<Rightarrow> Abrupt e tr1)"
| "exec_stmts clock (Throw v # rest) tr = Abrupt v tr"

text \<open>
  The guarded block:
  \<open>try { ${javascript} } catch (error) { sendToParent('error', error.message); }\<close>.
  Reading \<open>error.message\<close> or posting it may throw again, out of the block.
\<close>

definition guarded_block :: "(nat \<Rightarrow> string) \<Rightarrow> stmt list \<Rightarrow> effect list \<Rightarrow> outcome" where
  "guarded_block clock js tr =
     (case exec_stmts clock js tr of
        Normal tr1 \<Rightarrow> Normal tr1
      | Abrupt error tr1 \<Rightarrow>
          (case get_prop error ''message'' of
             Inl e \<Rightarrow> Abrupt e tr1
           | Inr message \<Rightarrow> sendToParent clock ''error'' message tr1))"

text \<open>
  The listener installed with \<open>window.addEventListener('error', ...)\<close>.  The platform
  calls it with an \<open>ErrorEvent\<close> when an exception leaves the script; how the platform
  fills the event from the exception is the parameter \<open>report\<close>.
\<close>

record ErrorEvent =
  ev_message :: string
  ev_filename :: string
  ev_lineno :: nat

definition error_listener :: "(nat \<Rightarrow> string) \<Rightarrow> ErrorEvent \<Rightarrow> effect list \<Rightarrow> outcome" where
  "error_listener clock e tr =
     sendToParent clock ''error''
       (JStr (ev_message e @ '' at '' @ ev_filename e @ '':'' @ string_of_nat (ev_lineno e))) tr"

text \<open>
  The whole script element, from an empty trace: the guarded block, and the error
  listener when an exception leaves it.  The result is the final trace.
\<close>

definition outcome_trace :: "outcome \<Rightarrow> effect list" where
  "outcome_trace out = (case out of Normal tr \<Rightarrow> tr | Abrupt e tr \<Rightarrow> tr)"

definition run_script :: "(jsval \<Rightarrow> ErrorEvent) \<Rightarrow> (nat \<Rightarrow> string) \<Rightarrow> stmt list \<Rightarrow> effect list" where
  "run_script report clock js =
     (case guarded_block clock js [] of
        Normal tr \<Rightarrow> tr
      | Abrupt e tr \<Rightarrow> outcome_trace (error_listener clock (report e) tr))"

text \<open>The messages a trace relays to the parent window, in order.\<close>

fun relayed :: "effect list \<Rightarrow> jsval list" where
  "relayed [] = []"
| "relayed (PostMessage p # tr) = p # relayed tr"
| "relayed (NativeCall l args # tr) = relayed tr"

section \<open>The document composer\<close>

text \<open>
  \<open>generatePreviewContent\<close> in \<open>PreviewPanel.tsx\<close> is one template literal with the
  three placeholders \<open>${css}\<close>, \<open>${html}\<close> and \<open>${javascript}\<close>.  The four stretches of
  fixed text around them are given line by line (the escapes of the template literal
  resolved); the lines of a stretch are joined by newline characters.
\<close>

definition template_head :: "string list" where
  \<open>template_head =
    ['''',
     ''<!DOCTYPE html>'',
     ''<html lang="en">'',
     ''<head>'',
     ''    <meta charset="UTF-8">'',
     ''    <meta name="viewport" content="width=device-width, initial-scale=1.0">'',
     ''    <title>Preview</title>'',
     ''    <style>'',
     ''        body { '',
     ''            margin: 0; '',
     ''            padding: 16px; '',
     ''            font-family: -apple-system, BlinkMacSystemFont, 'Segoe UI', Roboto, sans-serif;'',
     ''            background: white;'',
     ''            color: #333;'',
     ''        }'',
     ''        '']\<close>

definition template_after_css :: "string list" where
  \<open>template_after_css =
    ['''',
     ''    </style>'',
     ''</head>'',
     ''<body>'',
     ''    '']\<close>

definition template_after_html :: "string list" where
  \<open>template_after_html =
    ['''',
     ''    <script>'',
     ''        // Intercept console methods'',
     ''        const originalConsole = {'',
     ''            log: console.log,'',
     ''            error: console.error,'',
     ''            warn: console.warn,'',
     ''            info: console.info'',
     ''        };'',
     ''        '',
     ''        const sendToParent = (type, message) => {'',
     ''            window.parent.postMessage({'',
     ''                type: 'console','',
     ''                level: type,'',
     ''                message: message,'',
     ''                timestamp: new Date().toISOString()'',
     ''            }, '*');'',
     ''        };'',
     ''        '',
     ''        console.log = (...args) => {'',
     ''            originalConsole.log(...args);'',
     ''            sendToParent('log', args.map(arg => '',
     ''                typeof arg === 'object' ? JSON.stringify(arg, null, 2) : String(arg)'',
     ''            ).join(' '));'',
     ''        };'',
     ''        '',
     ''        console.error = (...args) => {'',
     ''            originalConsole.error(...args);'',
     ''            sendToParent('error', args.map(arg => '',
     ''                typeof arg === 'object' ? JSON.stringify(arg, null, 2) : String(arg)'',
     ''            ).join(' '));'',
     ''        };'',
     ''        '',
     ''        console.warn = (...args) => {'',
     ''            originalConsole.warn(...args);'',
     ''            sendToParent('warn', args.map(arg => '',
     ''                typeof arg === 'object' ? JSON.stringify(arg, null, 2) : String(arg)'',
     ''            ).join(' '));'',
     ''        };'',
     ''        '',
     ''        console.info = (...args) => {'',
     ''            originalConsole.info(...args);'',
     ''            sendToParent('info', args.map(arg => '',
     ''                typeof arg === 'object' ? JSON.stringify(arg, null, 2) : String(arg)'',
     ''            ).join(' '));'',
     ''        };'',
     ''        '',
     ''        // Catch runtime errors'',
     ''        window.addEventListener('error', (e) => {'',
     ''            sendToParent('error', `${e.message} at ${e.filename}:${e.lineno}`);'',
     ''        });'',
     ''        '',
     ''        try {'',
     ''            '']\<close>

definition template_after_javascript :: "string list" where
  \<open>template_after_javascript =
    ['''',
     ''        } catch (error) {'',
     ''            sendToParent('error', error.message);'',
     ''        }'',
     ''    </script>'',
     ''</body>'',
     ''</html>'']\<close>

definition template_text :: "string list \<Rightarrow> string" where
  "template_text ls = js_join [CHR 0x0A] ls"

text \<open>
  The function is a closure of the component: it can see the props, the component state
  \<open>isLoading\<close> and, as any script, the host clock.  All of that is its argument here.
\<close>

record PreviewPanelProps =
  html :: string
  css :: string
  javascript :: string

record scope = PreviewPanelProps +
  isLoading :: bool
  host_now :: int

definition generatePreviewContent :: "scope \<Rightarrow> string" where
  "generatePreviewContent sc =
     template_text template_head @ css sc @
     template_text template_after_css @ html sc @
     template_text template_after_html @ javascript sc @
     template_text template_after_javascript"

section \<open>The preview component\<close>

text \<open>The \<open>iframe\<close> element that \<open>PreviewPanel\<close> returns, with the attributes it is given.\<close>

record iframe =
  className :: string
  title :: string
  sandbox :: string
  srcdoc :: string

definition PreviewPanel_iframe :: "scope \<Rightarrow> iframe" where
  "PreviewPanel_iframe sc =
     \<lparr>className = ''w-full h-full bg-white'',
      title = ''Code Preview'',
      sandbox = ''allow-scripts allow-same-origin'',
      srcdoc = generatePreviewContent sc\<rparr>"

text \<open>
  \<open>refreshPreview\<close>: when the ref holds the element, its \<open>srcdoc\<close> is replaced by a
  freshly composed document and \<open>isLoading\<close> is set; nothing else of the element changes.
  (The timer that clears \<open>isLoading\<close> 300 ms later is a later event.)
\<close>

definition refreshPreview :: "scope \<Rightarrow> iframe option \<Rightarrow> scope \<times> iframe option" where
  "refreshPreview sc current =
     (case current of
        None \<Rightarrow> (sc, None)
      | Some el \<Rightarrow> (sc\<lparr>isLoading := True\<rparr>, Some (el\<lparr>srcdoc := generatePreviewContent sc\<rparr>)))"

text \<open>
  The browser reads the \<open>sandbox\<close> attribute as a set of tokens separated by ASCII
  whitespace.  \<open>split_when\<close> cuts a string at every character that satisfies the
  predicate (the first argument is the piece being collected).
\<close>

fun split_when :: "(char \<Rightarrow> bool) \<Rightarrow> string \<Rightarrow> string \<Rightarrow> string list" where
  "split_when P cur [] = [cur]"
| "split_when P cur (c # cs) =
     (if P c then cur # split_when P [] cs else split_when P (cur @ [c]) cs)"

definition ascii_whitespace :: "char \<Rightarrow> bool" where
  "ascii_whitespace c = (c \<in> set [CHR 0x09, CHR 0x0A, CHR 0x0C, CHR 0x0D, CHR 0x20])"

definition sandbox_tokens :: "iframe \<Rightarrow> string list" where
  "sandbox_tokens el = filter (\<lambda>w. w \<noteq> []) (split_when ascii_whitespace [] (sandbox el))"

section \<open>The host side of the relay\<close>

text \<open>
  \<open>ConsoleLog\<close> of \<open>types/index.ts\<close>.  The handler copies three fields of the payload
  without looking at them, so at run time they hold whatever JavaScript value arrived.
\<close>

record ConsoleLog =
  log_id :: string
  log_type :: jsval
  log_message :: jsval
  log_timestamp :: jsval

text \<open>
  \<open>handleMessage\<close> of \<open>PreviewPanel\<close>, for the payload \<open>event.data\<close> and the reading
  \<open>now\<close> of \<open>Date.now()\<close> (a whole number of milliseconds, which \<open>toString\<close> prints as
  a plain decimal numeral).  The result is the record passed to \<open>onConsoleLog\<close>, \<open>None\<close>
  when the callback is not called, or \<open>Inl e\<close> when the handler throws \<open>e\<close>.
\<close>

definition handleMessage :: "int \<Rightarrow> jsval \<Rightarrow> jsval + ConsoleLog option" where
  "handleMessage now data =
     (case get_prop data ''type'' of
        Inl e \<Rightarrow> Inl e
      | Inr t \<Rightarrow>
          if t = JStr ''console'' then
            (case get_prop data ''level'' of
               Inl e \<Rightarrow> Inl e
             | Inr level \<Rightarrow>
                 (case get_prop data ''message'' of
                    Inl e \<Rightarrow> Inl e
                  | Inr message \<Rightarrow>
                      (case get_prop data ''timestamp'' of
                         Inl e \<Rightarrow> Inl e
                       | Inr timestamp \<Rightarrow>
                           Inr (Some \<lparr>log_id = number_toString now,
                                      log_type = level,
                                      log_message = message,
                                      log_timestamp = timestamp\<rparr>))))
          else Inr None)"

text \<open>\<open>handleConsoleLog\<close> of \<open>App\<close>: \<open>setConsoleLogs(prev => [...prev, log])\<close>.\<close>

definition handleConsoleLog :: "ConsoleLog \<Rightarrow> ConsoleLog list \<Rightarrow> ConsoleLog list" where
  "handleConsoleLog log prev = prev @ [log]"

text \<open>
  One \<open>message\<close> event at the host: the listener runs and, when it calls
  \<open>onConsoleLog\<close>, the log sequence grows.  A listener that throws leaves it as it was.
\<close>

definition on_message :: "int \<Rightarrow> jsval \<Rightarrow> ConsoleLog list \<Rightarrow> ConsoleLog list" where
  "on_message now data logs =
     (case handleMessage now data of
        Inr (Some log) \<Rightarrow> handleConsoleLog log logs
      | Inr None \<Rightarrow> logs
      | Inl e \<Rightarrow> logs)"

text \<open>A run of events, each with the host clock reading at which it is handled.\<close>

fun on_messages :: "(int \<times> jsval) list \<Rightarrow> ConsoleLog list \<Rightarrow> ConsoleLog list" where
  "on_messages [] logs = logs"
| "on_messages ((now, data) # evs) logs = on_messages evs (on_message now data logs)"

section \<open>The application state and its handlers\<close>


















section \<open>Notions used in the statements\<close>

text \<open>
  The message shape in the words of the specification: an object whose channel field is
  the string \<open>console\<close>, whose \<open>level\<close> is one of the four log levels and whose
  \<open>message\<close> and \<open>timestamp\<close> are strings.  The specification calls the channel field
  \<open>channel\<close>, the code \<open>type\<close>; its name is the first argument.
\<close>

definition is_LogLevel :: "jsval \<Rightarrow> bool" where
  "is_LogLevel v = (v \<in> set [JStr ''log'', JStr ''warn'', JStr ''error'', JStr ''info''])"

definition is_string :: "jsval \<Rightarrow> bool" where
  "is_string v = (case v of JStr s \<Rightarrow> True | _ \<Rightarrow> False)"

definition relay_shape :: "string \<Rightarrow> jsval \<Rightarrow> bool" where
  "relay_shape channel data =
     (case data of
        JObj kvs \<Rightarrow>
          map_of kvs channel = Some (JStr ''console'') \<and>
          (case map_of kvs ''level'' of None \<Rightarrow> False | Some l \<Rightarrow> is_LogLevel l) \<and>
          (case map_of kvs ''message'' of None \<Rightarrow> False | Some m \<Rightarrow> is_string m) \<and>
          (case map_of kvs ''timestamp'' of None \<Rightarrow> False | Some ts \<Rightarrow> is_string ts)
      | _ \<Rightarrow> False)"

text \<open>The value of \<open>data.k\<close> when the read does not throw.\<close>

definition prop_of :: "jsval \<Rightarrow> string \<Rightarrow> jsval" where
  "prop_of data k = (case get_prop data k of Inl e \<Rightarrow> JUndefined | Inr v \<Rightarrow> v)"





text \<open>A clock and an error report for the closed examples.\<close>

definition clock0 :: "nat \<Rightarrow> string" where
  "clock0 k = ''2023-11-14T22:13:20.00'' @ [digit_char (k mod 10)] @ ''Z''"

definition report0 :: "jsval \<Rightarrow> ErrorEvent" where
  "report0 e = \<lparr>ev_message = ''Uncaught '' @ String_fn e, ev_filename = ''about:srcdoc'', ev_lineno = 72\<rparr>"

section \<open>Facts about formatting and the console replacements\<close>










lemma format_args_single_string: "format_args [JStr s] = Inr s"
  by (simp add: format_args_def format_arg_def js_join_opt_def)

lemma console_call_formats:
  "format_args args = Inr text \<Longrightarrow>
   console_call clock m args tr =
     Normal (tr @ [NativeCall (method_name m) args,
                   PostMessage (JObj [(''type'', JStr ''console''), (''level'', JStr (method_name m)),
                                      (''message'', JStr text),
                                      (''timestamp'', JStr (clock (Suc (length tr))))])])"
  by (cases m)
     (simp_all add: console_call_def console_log_def console_error_def console_warn_def
        console_info_def method_name_def sendToParent_def)


lemma relayed_append: "relayed (tr @ tr') = relayed tr @ relayed tr'"
  by (induction tr rule: relayed.induct) simp_all

lemma get_prop_Inr_total:
  "get_prop data k = Inr v \<Longrightarrow> \<exists>w. get_prop data k' = Inr w"
  by (cases data) auto

lemmas number_eval = number_toString_def string_of_nat.simps digit_char_def

lemma safe_int_plain_decimal: "\<bar>int_of_safe n\<bar> < 10 ^ 21"
  using int_of_safe [of n] by simp arith

section \<open>Facts about the template\<close>

lemma template_head_shape:
  \<open>template_text template_head =
     ''\<newline><!DOCTYPE html>'' @ take 158 (drop 16 (template_text template_head)) @ ''<style>'' @
     template_text ['''',
       ''        body { '',
       ''            margin: 0; '',
       ''            padding: 16px; '',
       ''            font-family: -apple-system, BlinkMacSystemFont, 'Segoe UI', Roboto, sans-serif;'',
       ''            background: white;'',
       ''            color: #333;'',
       ''        }'',
       ''        '']\<close>
  by (simp add: template_text_def template_head_def)



lemma template_after_html_start:
  \<open>template_text template_after_html =
     ''\<newline>    <script>'' @ drop 13 (template_text template_after_html)\<close>
  by (simp add: template_text_def template_after_html_def)


section \<open>Properties of the preview bridge\<close>

subsection \<open>C1: the flags of the preview iframe\<close>

theorem C1_counterexample:
  "''allow-same-origin'' \<in> set (sandbox_tokens (PreviewPanel_iframe
      \<lparr>html = ''<p>hi</p>'', css = '''', javascript = '''', isLoading = False, host_now = 0\<rparr>))"
  by (simp add: sandbox_tokens_def PreviewPanel_iframe_def ascii_whitespace_def)

text \<open>
  Claim C1, as amended.  For every render the composed document is the \<open>srcdoc\<close> of an
  iframe whose \<open>sandbox\<close> attribute holds exactly the two tokens \<open>allow-scripts\<close> and
  \<open>allow-same-origin\<close>: script execution is permitted and same-origin capability is
  granted as well.  \<open>refreshPreview\<close> replaces the document and leaves the attribute as
  it is.
\<close>

theorem PreviewPanel_sandbox_flags:
  "sandbox_tokens (PreviewPanel_iframe sc) = [''allow-scripts'', ''allow-same-origin''] \<and>
   srcdoc (PreviewPanel_iframe sc) = generatePreviewContent sc \<and>
   snd (refreshPreview sc' (Some (PreviewPanel_iframe sc))) =
     Some ((PreviewPanel_iframe sc)\<lparr>srcdoc := generatePreviewContent sc'\<rparr>) \<and>
   sandbox_tokens ((PreviewPanel_iframe sc)\<lparr>srcdoc := generatePreviewContent sc'\<rparr>) =
     [''allow-scripts'', ''allow-same-origin'']"
  by (simp add: sandbox_tokens_def PreviewPanel_iframe_def ascii_whitespace_def refreshPreview_def)

subsection \<open>C2: which messages the host accepts\<close>

theorem C2_counterexample:
  "on_message 1700000000000
     (JObj [(''type'', JStr ''console''), (''channel'', JStr ''console''), (''level'', JNum (safe_of_int 42))]) [] =
     [\<lparr>log_id = ''1700000000000'', log_type = JNum (safe_of_int 42), log_message = JUndefined,
       log_timestamp = JUndefined\<rparr>] \<and>
   \<not> relay_shape ''channel''
       (JObj [(''type'', JStr ''console''), (''channel'', JStr ''console''), (''level'', JNum (safe_of_int 42))]) \<and>
   \<not> relay_shape ''type''
       (JObj [(''type'', JStr ''console''), (''channel'', JStr ''console''), (''level'', JNum (safe_of_int 42))])"
  by (simp add: on_message_def handleMessage_def handleConsoleLog_def relay_shape_def
      is_LogLevel_def number_eval)

text \<open>
  Claim C2, as amended.  For every message event received by the host, a record is
  appended to the log sequence if and only if the \<open>type\<close> property of the payload is the
  string \<open>console\<close>; the record takes \<open>level\<close>, \<open>message\<close> and \<open>timestamp\<close> from the
  payload as they are, without a check.  Every other message leaves the log sequence
  unchanged.
\<close>

theorem on_message_checks_type_only:
  "on_message now data logs =
     (if get_prop data ''type'' = Inr (JStr ''console'')
      then logs @ [\<lparr>log_id = number_toString now,
                    log_type = prop_of data ''level'',
                    log_message = prop_of data ''message'',
                    log_timestamp = prop_of data ''timestamp''\<rparr>]
      else logs)"
proof (cases "get_prop data ''type''")
  case (Inl e)
  then show ?thesis by (simp add: on_message_def handleMessage_def)
next
  case (Inr t)
  obtain l m ts where "get_prop data ''level'' = Inr l" "get_prop data ''message'' = Inr m"
    "get_prop data ''timestamp'' = Inr ts"
    using get_prop_Inr_total [OF Inr] by metis
  with Inr show ?thesis
    by (simp add: on_message_def handleMessage_def handleConsoleLog_def prop_of_def)
qed

subsection \<open>C3: the ids of the records\<close>

text \<open>
  Claim C3.  The id of a record is the decimal numeral of the host clock at receipt and
  owes nothing to the payload; but two messages handled within the same millisecond
  get the same id, so the ids in the log sequence are not unique.  The two payloads
  below are those of \<open>console.log("a"); console.log("b")\<close>.
\<close>

theorem same_millisecond_ids_collide:
  "map log_id (on_messages
      [(1700000000000, JObj [(''type'', JStr ''console''), (''level'', JStr ''log''),
                             (''message'', JStr ''a''),
                             (''timestamp'', JStr ''2023-11-14T22:13:20.000Z'')]),
       (1700000000000, JObj [(''type'', JStr ''console''), (''level'', JStr ''log''),
                             (''message'', JStr ''b''),
                             (''timestamp'', JStr ''2023-11-14T22:13:20.000Z'')])] []) =
   [''1700000000000'', ''1700000000000'']"
  by (simp add: on_message_def handleMessage_def handleConsoleLog_def number_eval)

subsection \<open>C4: how the log sequence changes\<close>



subsection \<open>C5: the composer is a function of the three sources\<close>

text \<open>
  Claim C5.  The composed document depends only on the three strings of the bundle:
  whatever else the closure can see (the component state, the host clock), two calls
  with the same \<open>html\<close>, \<open>css\<close> and \<open>javascript\<close> yield the same string.
\<close>

theorem generatePreviewContent_deterministic:
  "html sc = html sc' \<Longrightarrow> css sc = css sc' \<Longrightarrow> javascript sc = javascript sc' \<Longrightarrow>
   generatePreviewContent sc = generatePreviewContent sc'"
  by (simp add: generatePreviewContent_def)

theorem generatePreviewContent_deterministic_witness:
  "generatePreviewContent
     \<lparr>html = ''<p>hi</p>'', css = ''p { color: red; }'', javascript = ''console.log(1)'',
      isLoading = False, host_now = 1700000000000\<rparr> =
   generatePreviewContent
     \<lparr>html = ''<p>hi</p>'', css = ''p { color: red; }'', javascript = ''console.log(1)'',
      isLoading = True, host_now = 1700000000999\<rparr>"
  using generatePreviewContent_deterministic
    [of "\<lparr>html = ''<p>hi</p>'', css = ''p { color: red; }'', javascript = ''console.log(1)'',
         isLoading = False, host_now = 1700000000000\<rparr>"
        "\<lparr>html = ''<p>hi</p>'', css = ''p { color: red; }'', javascript = ''console.log(1)'',
         isLoading = True, host_now = 1700000000999\<rparr>"]
  by simp

subsection \<open>C6: the shape of the composed document\<close>




subsection \<open>C7: one string argument\<close>

text \<open>
  Claim C7.  For each of the four console methods, one call with a single string
  argument relays exactly one message: its level is the name of the method and its
  message is that string.  The host turns it into one record with that level and text.
\<close>

theorem console_method_string_roundtrip:
  "console_call clock m [JStr s] tr =
     Normal (tr @ [NativeCall (method_name m) [JStr s],
                   PostMessage (JObj [(''type'', JStr ''console''),
                                      (''level'', JStr (method_name m)),
                                      (''message'', JStr s),
                                      (''timestamp'', JStr (clock (Suc (length tr))))])]) \<and>
   relayed (run_script report clock [ConsoleCall m [JStr s]]) =
     [JObj [(''type'', JStr ''console''), (''level'', JStr (method_name m)),
            (''message'', JStr s), (''timestamp'', JStr (clock 1))]] \<and>
   on_message now (JObj [(''type'', JStr ''console''), (''level'', JStr (method_name m)),
                         (''message'', JStr s), (''timestamp'', JStr (clock 1))]) logs =
     logs @ [\<lparr>log_id = number_toString now, log_type = JStr (method_name m),
               log_message = JStr s, log_timestamp = JStr (clock 1)\<rparr>] \<and>
   map method_name [Log, Warn, Error, Info] = [''log'', ''warn'', ''error'', ''info'']"
proof -
  have call: "console_call clock m [JStr s] tr =
     Normal (tr @ [NativeCall (method_name m) [JStr s],
                   PostMessage (JObj [(''type'', JStr ''console''),
                                      (''level'', JStr (method_name m)),
                                      (''message'', JStr s),
                                      (''timestamp'', JStr (clock (Suc (length tr))))])])" for tr
    by (rule console_call_formats) (rule format_args_single_string)
  have "relayed (run_script report clock [ConsoleCall m [JStr s]]) =
     [JObj [(''type'', JStr ''console''), (''level'', JStr (method_name m)),
            (''message'', JStr s), (''timestamp'', JStr (clock 1))]]"
    by (simp add: run_script_def guarded_block_def call [of "[]"])
  moreover have "on_message now (JObj [(''type'', JStr ''console''), (''level'', JStr (method_name m)),
                         (''message'', JStr s), (''timestamp'', JStr (clock 1))]) logs =
     logs @ [\<lparr>log_id = number_toString now, log_type = JStr (method_name m),
               log_message = JStr s, log_timestamp = JStr (clock 1)\<rparr>]"
    by (simp add: on_message_def handleMessage_def handleConsoleLog_def)
  ultimately show ?thesis
    using call [of tr] by (simp add: method_name_def)
qed

subsection \<open>C8: several arguments\<close>




subsection \<open>C9: a thrown error\<close>

text \<open>
  Claim C9.  With the user's JavaScript \<open>throw new Error("boom")\<close> the guarded block
  catches the throw and completes normally: exactly one message is relayed, its level is
  \<open>error\<close> and its text is \<open>boom\<close>, and the error listener is not involved.  Whatever
  value is thrown, exactly one message of level \<open>error\<close> is relayed (by the catch clause,
  or by the error listener when the catch clause throws itself).  The user's CSS and
  HTML stand in the composed document before the script element, whatever the
  JavaScript is.
\<close>

theorem guarded_block_catches_error:
  \<open>guarded_block clock [Throw (JError ''boom'')] [] =
     Normal [PostMessage (JObj [(''type'', JStr ''console''), (''level'', JStr ''error''),
                                (''message'', JStr ''boom''), (''timestamp'', JStr (clock 0))])] \<and>
   relayed (run_script report clock [Throw (JError ''boom'')]) =
     [JObj [(''type'', JStr ''console''), (''level'', JStr ''error''),
            (''message'', JStr ''boom''), (''timestamp'', JStr (clock 0))]] \<and>
   (\<exists>message ts.
      relayed (run_script report clock [Throw v]) =
        [JObj [(''type'', JStr ''console''), (''level'', JStr ''error''),
               (''message'', message), (''timestamp'', JStr ts)]]) \<and>
   (\<exists>a b rest.
      generatePreviewContent (sc\<lparr>javascript := ''throw new Error("boom")''\<rparr>) =
        a @ ''<style>'' @ b @ css sc @ ''\<newline>    </style>\<newline></head>\<newline><body>\<newline>    '' @
        html sc @ ''\<newline>    <script>'' @ rest)\<close>
proof (intro conjI)
  show block: "guarded_block clock [Throw (JError ''boom'')] [] =
     Normal [PostMessage (JObj [(''type'', JStr ''console''), (''level'', JStr ''error''),
                                (''message'', JStr ''boom''), (''timestamp'', JStr (clock 0))])]"
    by (simp add: guarded_block_def sendToParent_def)
  show "relayed (run_script report clock [Throw (JError ''boom'')]) =
     [JObj [(''type'', JStr ''console''), (''level'', JStr ''error''),
            (''message'', JStr ''boom''), (''timestamp'', JStr (clock 0))]]"
    by (simp add: run_script_def block)
  show "\<exists>message ts.
      relayed (run_script report clock [Throw v]) =
        [JObj [(''type'', JStr ''console''), (''level'', JStr ''error''),
               (''message'', message), (''timestamp'', JStr ts)]]"
  proof (cases "get_prop v ''message''")
    case (Inl e)
    then show ?thesis
      by (simp add: run_script_def guarded_block_def error_listener_def sendToParent_def
          outcome_trace_def)
  next
    case (Inr m)
    then show ?thesis
      by (cases "cloneable m")
         (simp_all add: run_script_def guarded_block_def error_listener_def sendToParent_def
            outcome_trace_def)
  qed
  have css_part: \<open>template_text template_after_css =
      ''\<newline>    </style>\<newline></head>\<newline><body>\<newline>    ''\<close>
    by (simp add: template_text_def template_after_css_def)
  show \<open>\<exists>a b rest.
      generatePreviewContent (sc\<lparr>javascript := ''throw new Error("boom")''\<rparr>) =
        a @ ''<style>'' @ b @ css sc @ ''\<newline>    </style>\<newline></head>\<newline><body>\<newline>    '' @
        html sc @ ''\<newline>    <script>'' @ rest\<close>
    unfolding generatePreviewContent_def
    apply (subst template_head_shape)
    apply (subst template_after_html_start)
    apply (simp only: css_part)
    apply (rule exI [where x = "''\<newline><!DOCTYPE html>'' @ take 158 (drop 16 (template_text template_head))"])
    apply (simp only: append_assoc)
    apply (intro exI)
    apply simp
    done
qed

subsection \<open>C10: a thrown value that is not an error\<close>

theorem C10_counterexample:
  "relayed (run_script report0 clock0 [Throw (JObj [(''message'', JStr ''boom'')])]) =
     [JObj [(''type'', JStr ''console''), (''level'', JStr ''error''),
            (''message'', JStr ''boom''), (''timestamp'', JStr ''2023-11-14T22:13:20.000Z'')]] \<and>
   typeof (JObj [(''message'', JStr ''boom'')]) = ''object''"
  by (simp add: run_script_def guarded_block_def sendToParent_def clock0_def digit_char_def)

text \<open>
  Claim C10, as amended.  When the user's JavaScript synchronously throws a primitive
  value other than \<open>undefined\<close> and \<open>null\<close> (for example \<open>throw "boom"\<close>), the guarded
  block forwards the \<open>message\<close> property of the thrown value rather than the value
  itself; the property does not exist, so the \<open>message\<close> field of the relayed
  error-level payload is \<open>undefined\<close>, not a string, and does not contain the thrown
  text.  For any thrown value other than \<open>undefined\<close> and \<open>null\<close> the block forwards the
  \<open>message\<close> property when its value can be structured-cloned (it contains no function
  and no symbol), so a thrown object with such a property, an \<open>Error\<close> or not, has that
  property forwarded.  When the value of the property cannot be cloned, \<open>postMessage\<close>
  throws inside the catch clause, and when the thrown value is \<open>undefined\<close> or \<open>null\<close>,
  reading the property throws there; in both cases the block forwards nothing.
\<close>

theorem guarded_block_forwards_message_property:
  "(typeof v \<noteq> ''object'' \<and> typeof v \<noteq> ''undefined'' \<and> typeof v \<noteq> ''function'' \<longrightarrow>
      relayed (run_script report clock [Throw v]) =
        [JObj [(''type'', JStr ''console''), (''level'', JStr ''error''),
               (''message'', JUndefined), (''timestamp'', JStr (clock 0))]]) \<and>
   (get_prop v ''message'' = Inr message \<and> cloneable message \<longrightarrow>
      guarded_block clock [Throw v] tr =
        Normal (tr @ [PostMessage (JObj [(''type'', JStr ''console''), (''level'', JStr ''error''),
                                         (''message'', message),
                                         (''timestamp'', JStr (clock (length tr)))])])) \<and>
   (get_prop v ''message'' = Inr message \<and> \<not> cloneable message \<longrightarrow>
      guarded_block clock [Throw v] tr = Abrupt DataCloneError tr) \<and>
   (v = JUndefined \<or> v = JNull \<longrightarrow>
      guarded_block clock [Throw v] tr = Abrupt TypeError_nullish tr)"
proof (intro conjI impI)
  assume "typeof v \<noteq> ''object'' \<and> typeof v \<noteq> ''undefined'' \<and> typeof v \<noteq> ''function''"
  then have "get_prop v ''message'' = Inr JUndefined"
    by (cases v) simp_all
  then show "relayed (run_script report clock [Throw v]) =
        [JObj [(''type'', JStr ''console''), (''level'', JStr ''error''),
               (''message'', JUndefined), (''timestamp'', JStr (clock 0))]]"
    by (simp add: run_script_def guarded_block_def sendToParent_def)
next
  assume "get_prop v ''message'' = Inr message \<and> cloneable message"
  then show "guarded_block clock [Throw v] tr =
        Normal (tr @ [PostMessage (JObj [(''type'', JStr ''console''), (''level'', JStr ''error''),
                                         (''message'', message),
                                         (''timestamp'', JStr (clock (length tr)))])])"
    by (simp add: guarded_block_def sendToParent_def)
next
  assume "get_prop v ''message'' = Inr message \<and> \<not> cloneable message"
  then show "guarded_block clock [Throw v] tr = Abrupt DataCloneError tr"
    by (simp add: guarded_block_def sendToParent_def)
next
  assume "v = JUndefined \<or> v = JNull"
  then show "guarded_block clock [Throw v] tr = Abrupt TypeError_nullish tr"
    by (auto simp: guarded_block_def)
qed

theorem guarded_block_forwards_message_property_witness:
  "typeof (JStr ''boom'') \<noteq> ''object'' \<and> typeof (JStr ''boom'') \<noteq> ''undefined'' \<and>
   typeof (JStr ''boom'') \<noteq> ''function'' \<and>
   relayed (run_script report0 clock0 [Throw (JStr ''boom'')]) =
     [JObj [(''type'', JStr ''console''), (''level'', JStr ''error''),
            (''message'', JUndefined), (''timestamp'', JStr (clock0 0))]] \<and>
   get_prop (JError ''boom'') ''message'' = Inr (JStr ''boom'') \<and> cloneable (JStr ''boom'') \<and>
   guarded_block clock0 [Throw (JError ''boom'')] [] =
     Normal [PostMessage (JObj [(''type'', JStr ''console''), (''level'', JStr ''error''),
                                (''message'', JStr ''boom''), (''timestamp'', JStr (clock0 0))])] \<and>
   get_prop (JObj [(''message'', JFun ''() => 1'')]) ''message'' = Inr (JFun ''() => 1'') \<and>
   \<not> cloneable (JFun ''() => 1'') \<and>
   guarded_block clock0 [Throw (JObj [(''message'', JFun ''() => 1'')])] [] =
     Abrupt DataCloneError [] \<and>
   guarded_block clock0 [Throw JNull] [] = Abrupt TypeError_nullish []"
  using guarded_block_forwards_message_property [of "JStr ''boom''" report0 clock0 JUndefined "[]"]
    guarded_block_forwards_message_property [of "JError ''boom''" report0 clock0 "JStr ''boom''" "[]"]
    guarded_block_forwards_message_property
      [of "JObj [(''message'', JFun ''() => 1'')]" report0 clock0 "JFun ''() => 1''" "[]"]
    guarded_block_forwards_message_property [of JNull report0 clock0 JUndefined "[]"]
  by simp

end
